theory Spec2Isabelle
  imports Complex_Main
begin

section \<open>Data model\<close>

text \<open>
  The trading bot is Python. Its unbounded integers (window sizes, the cross state
  \<^verbatim>\<open>1\<close>/\<^verbatim>\<open>-1\<close>) are \<^typ>\<open>int\<close>. Its \<^verbatim>\<open>float\<close> prices, quantities and thresholds
  are modelled in two ways. In the bot and in \<open>generate_signal\<close> they are \<^typ>\<open>real\<close>:
  exact arithmetic, no rounding, no infinities, no NaN. Where a result turns on the
  outcome of a comparison of rounded numbers, the strategy is also given over an
  arbitrary arithmetic (\<open>generate_signal_float\<close>), of which the exact one is an instance.
  The signal strings \<^verbatim>\<open>'BUY'\<close>, \<^verbatim>\<open>'SELL'\<close>, \<^verbatim>\<open>'HOLD'\<close> are the only values
  \<^verbatim>\<open>generate_signal\<close> returns and the only ones the bot compares against, so they
  form a datatype. Exceptions are values: a function that can raise returns
  \<open>py_error + 'a\<close>, with \<open>Inl\<close> for the exception.
\<close>

datatype py_error = ValueError | ZeroDivisionError

datatype signal = HOLD | BUY | SELL

text \<open>\<^verbatim>\<open>bot.py\<close>, dataclass \<^verbatim>\<open>Trade\<close>. A backtest stores the candle index in
  \<^verbatim>\<open>timestamp\<close>, the live loop the wall-clock time.\<close>

record Trade =
  timestamp :: real
  action :: signal
  price :: real
  quantity :: real

text \<open>\<^verbatim>\<open>simple_sma.py\<close>, the attributes of \<^verbatim>\<open>SimpleSMAStrategy\<close>;
  \<open>last_cross_state\<close> is \<^verbatim>\<open>_last_cross_state: int | None\<close>.\<close>

record SimpleSMAStrategy =
  short_window :: int
  long_window :: int
  last_cross_state :: "int option"

section \<open>The SMA strategy\<close>

text \<open>\<^verbatim>\<open>SimpleSMAStrategy.__init__\<close>: the only check is
  \<^verbatim>\<open>if long_window <= short_window: raise ValueError\<close>.\<close>

definition SimpleSMAStrategy_init :: "int \<Rightarrow> int \<Rightarrow> py_error + SimpleSMAStrategy" where
  "SimpleSMAStrategy_init sw lw =
     (if lw \<le> sw then Inl ValueError
      else Inr \<lparr>short_window = sw, long_window = lw, last_cross_state = None\<rparr>)"

text \<open>Python's \<^verbatim>\<open>data[start:]\<close>: a negative start counts from the end and is clamped
  at the beginning of the list; a start past the end gives the empty list.\<close>

definition slice_from :: "'a list \<Rightarrow> int \<Rightarrow> 'a list" where
  "slice_from data start =
     (if start < 0 then drop (nat (int (length data) + start)) data
      else drop (nat start) data)"

text \<open>\<^verbatim>\<open>_moving_average\<close>: \<^verbatim>\<open>sum(data[-window:]) / window\<close>. The division raises
  \<^verbatim>\<open>ZeroDivisionError\<close> when \<^verbatim>\<open>window\<close> is 0 (where \<^verbatim>\<open>data[-0:]\<close> is the whole list).\<close>

definition moving_average :: "real list \<Rightarrow> int \<Rightarrow> py_error + real" where
  "moving_average data window =
     (if window = 0 then Inl ZeroDivisionError
      else Inr (sum_list (slice_from data (- window)) / real_of_int window))"

text \<open>\<^verbatim>\<open>generate_signal\<close>. It returns the signal together with the strategy object as
  it is after the call; when an exception is raised the object has not been written.\<close>

definition generate_signal ::
  "SimpleSMAStrategy \<Rightarrow> real list \<Rightarrow> py_error + signal \<times> SimpleSMAStrategy" where
  "generate_signal self prices =
     (if int (length prices) < long_window self then Inr (HOLD, self)
      else
        case moving_average prices (short_window self) of
          Inl e \<Rightarrow> Inl e
        | Inr short_ma \<Rightarrow>
            (case moving_average prices (long_window self) of
               Inl e \<Rightarrow> Inl e
             | Inr long_ma \<Rightarrow>
                 let current_state = (if short_ma > long_ma then 1 else - 1 :: int);
                     sig = (case last_cross_state self of
                              None \<Rightarrow> HOLD
                            | Some last_state \<Rightarrow>
                                if current_state > last_state then BUY
                                else if current_state < last_state then SELL
                                else HOLD)
                 in Inr (sig, self\<lparr>last_cross_state := Some current_state\<rparr>)))"

subsection \<open>The strategy over the machine's arithmetic\<close>

text \<open>
  \<^verbatim>\<open>generate_signal\<close> uses three arithmetic operations on prices: \<^verbatim>\<open>sum\<close> of a slice,
  the division \<^verbatim>\<open>/\<close> of that sum by the window (an \<^verbatim>\<open>int\<close>), and the comparison
  \<^verbatim>\<open>short_ma > long_ma\<close>. On Python's floats they round, overflow to infinity and are
  false on NaN. They are parameters here, over any type \<open>'f\<close> of numbers, so that what
  is proved of \<open>generate_signal_float\<close> holds of the code whatever its arithmetic does.
  Division by the \<^verbatim>\<open>int\<close> 0 raises \<^verbatim>\<open>ZeroDivisionError\<close> for every dividend.
\<close>

record 'f float_ops =
  fsum :: "'f list \<Rightarrow> 'f"
  fdiv :: "'f \<Rightarrow> int \<Rightarrow> 'f"
  fgt :: "'f \<Rightarrow> 'f \<Rightarrow> bool"

text \<open>The exact arithmetic of the reals.\<close>

definition exact_ops :: "real float_ops" where
  "exact_ops = \<lparr>fsum = sum_list, fdiv = (\<lambda>s w. s / real_of_int w), fgt = (\<lambda>a b. a > b)\<rparr>"

text \<open>\<^verbatim>\<open>_moving_average\<close>: \<^verbatim>\<open>sum(data[-window:]) / window\<close>.\<close>

definition moving_average_float :: "'f float_ops \<Rightarrow> 'f list \<Rightarrow> int \<Rightarrow> py_error + 'f" where
  "moving_average_float A data window =
     (if window = 0 then Inl ZeroDivisionError
      else Inr (fdiv A (fsum A (slice_from data (- window))) window))"

text \<open>\<^verbatim>\<open>generate_signal\<close>, line by line as above.\<close>

definition generate_signal_float ::
  "'f float_ops \<Rightarrow> SimpleSMAStrategy \<Rightarrow> 'f list \<Rightarrow> py_error + signal \<times> SimpleSMAStrategy" where
  "generate_signal_float A self prices =
     (if int (length prices) < long_window self then Inr (HOLD, self)
      else
        case moving_average_float A prices (short_window self) of
          Inl e \<Rightarrow> Inl e
        | Inr short_ma \<Rightarrow>
            (case moving_average_float A prices (long_window self) of
               Inl e \<Rightarrow> Inl e
             | Inr long_ma \<Rightarrow>
                 let current_state = (if fgt A short_ma long_ma then 1 else - 1 :: int);
                     sig = (case last_cross_state self of
                              None \<Rightarrow> HOLD
                            | Some last_state \<Rightarrow>
                                if current_state > last_state then BUY
                                else if current_state < last_state then SELL
                                else HOLD)
                 in Inr (sig, self\<lparr>last_cross_state := Some current_state\<rparr>)))"

text \<open>An engine instance: a strategy object built by the constructor and written since
  only by calls of \<^verbatim>\<open>generate_signal\<close>.\<close>

inductive engine_instance :: "'f float_ops \<Rightarrow> SimpleSMAStrategy \<Rightarrow> bool" for A where
  constructed: "SimpleSMAStrategy_init sw lw = Inr self \<Longrightarrow> engine_instance A self"
| called: "engine_instance A self \<Longrightarrow> generate_signal_float A self prices = Inr (sig, self')
     \<Longrightarrow> engine_instance A self'"

subsection \<open>The crossover rule in the words of the specification\<close>

datatype cross_state = ABOVE | BELOW | UNSET

text \<open>The stored integer read as the specification's state: \<^verbatim>\<open>None\<close> is UNSET,
  \<^verbatim>\<open>1\<close> is ABOVE, \<^verbatim>\<open>-1\<close> is BELOW.\<close>

definition cross_of :: "int option \<Rightarrow> cross_state" where
  "cross_of st = (case st of None \<Rightarrow> UNSET | Some v \<Rightarrow> if v = 1 then ABOVE else BELOW)"

text \<open>The arithmetic mean of the last \<open>n\<close> prices, in the given arithmetic.\<close>

definition mean_last :: "'f float_ops \<Rightarrow> nat \<Rightarrow> 'f list \<Rightarrow> 'f" where
  "mean_last A n xs = fdiv A (fsum A (drop (length xs - n) xs)) (int n)"

text \<open>ABOVE if the short mean is strictly greater than the long mean, else BELOW.\<close>

definition spec_current_state :: "'f float_ops \<Rightarrow> 'f \<Rightarrow> 'f \<Rightarrow> cross_state" where
  "spec_current_state A short_ma long_ma = (if fgt A short_ma long_ma then ABOVE else BELOW)"

text \<open>HOLD on the first observation; afterwards BUY on BELOW to ABOVE, SELL on ABOVE to
  BELOW, HOLD when unchanged.\<close>

definition spec_signal :: "cross_state \<Rightarrow> cross_state \<Rightarrow> signal" where
  "spec_signal last_state cur =
     (if last_state = UNSET then HOLD
      else if last_state = BELOW \<and> cur = ABOVE then BUY
      else if last_state = ABOVE \<and> cur = BELOW then SELL
      else HOLD)"

section \<open>The trading bot\<close>

text \<open>
  \<^verbatim>\<open>bot.py\<close>, the attributes of \<^verbatim>\<open>TradingBot\<close>. The data handler is an external
  collaborator (the exchange, or a random generator): the prices it returns are inputs
  of the operations below. \<open>thread\<close> is \<^verbatim>\<open>_thread\<close>, \<open>running\<close> is \<^verbatim>\<open>_running\<close>.
  A \<^verbatim>\<open>Trade\<close> is never written after its creation, so the object shared by
  \<^verbatim>\<open>position\<close> and the ledger is modelled by its value.
\<close>

datatype thread_handle = WorkerThread

record TradingBot =
  symbol :: string
  interval :: string
  base_asset_amount :: real
  stop_loss_pct :: real
  take_profit_pct :: real
  max_position_size :: real
  strategy :: SimpleSMAStrategy
  running :: bool
  thread :: "thread_handle option"
  position :: "Trade option"
  trade_history :: "Trade list"

text \<open>The parsed YAML configuration; an absent key is \<open>None\<close> and takes the default
  of the matching \<^verbatim>\<open>config.get\<close> call.\<close>

record config =
  cfg_symbol :: "string option"
  cfg_interval :: "string option"
  cfg_base_asset_amount :: "real option"
  cfg_stop_loss_pct :: "real option"
  cfg_take_profit_pct :: "real option"
  cfg_max_position_size :: "real option"
  cfg_strategy_type :: "string option"
  cfg_short_window :: "int option"
  cfg_long_window :: "int option"

definition get_default :: "'a option \<Rightarrow> 'a \<Rightarrow> 'a" where
  "get_default v d = (case v of None \<Rightarrow> d | Some x \<Rightarrow> x)"

text \<open>\<^verbatim>\<open>TradingBot.__init__\<close>, from the loaded configuration on.\<close>

definition TradingBot_init :: "config \<Rightarrow> py_error + TradingBot" where
  "TradingBot_init cfg =
     (let strategy_type = get_default (cfg_strategy_type cfg) ''sma'' in
      if strategy_type = ''sma'' then
        (case SimpleSMAStrategy_init (get_default (cfg_short_window cfg) 7)
                (get_default (cfg_long_window cfg) 25) of
           Inl e \<Rightarrow> Inl e
         | Inr strat \<Rightarrow>
             Inr \<lparr>symbol = get_default (cfg_symbol cfg) ''BTCUSDT'',
                  interval = get_default (cfg_interval cfg) ''1m'',
                  base_asset_amount = get_default (cfg_base_asset_amount cfg) (1 / 1000),
                  stop_loss_pct = get_default (cfg_stop_loss_pct cfg) (2 / 100),
                  take_profit_pct = get_default (cfg_take_profit_pct cfg) (3 / 100),
                  max_position_size = get_default (cfg_max_position_size cfg) (1 / 10),
                  strategy = strat,
                  running = False,
                  thread = None,
                  position = None,
                  trade_history = []\<rparr>)
      else Inl ValueError)"

subsection \<open>Lifecycle\<close>

text \<open>The calls \<^verbatim>\<open>start\<close> and \<^verbatim>\<open>stop\<close> make on the thread library are returned as a
  list of effects. \<open>alive\<close> is the answer of \<^verbatim>\<open>is_alive()\<close> at the time of the call.\<close>

datatype thread_effect = Thread_start | Thread_join

definition start :: "TradingBot \<Rightarrow> TradingBot \<times> thread_effect list" where
  "start self =
     (if running self then (self, [])
      else (self\<lparr>running := True, thread := Some WorkerThread\<rparr>, [Thread_start]))"

definition stop :: "bool \<Rightarrow> TradingBot \<Rightarrow> TradingBot \<times> thread_effect list" where
  "stop alive self =
     (let self1 = self\<lparr>running := False\<rparr>;
          effects = (if thread self1 \<noteq> None \<and> alive then [Thread_join] else [])
      in (self1\<lparr>thread := None\<rparr>, effects))"

subsection \<open>One iteration of the live loop\<close>

text \<open>
  The order block of \<^verbatim>\<open>_run_loop\<close> (from \<^verbatim>\<open>if signal == "BUY" and self.position is None\<close>
  to the end of the stop-loss/take-profit block). \<open>pr\<close> is the price just fetched,
  \<open>t1\<close> and \<open>t2\<close> are the readings of \<^verbatim>\<open>time.time()\<close> in the signal block and in the
  stop-loss/take-profit block.
\<close>

definition run_loop_trade ::
  "TradingBot \<Rightarrow> signal \<Rightarrow> real \<Rightarrow> real \<Rightarrow> real \<Rightarrow> TradingBot" where
  "run_loop_trade self sig pr t1 t2 =
     (let self1 =
            (if sig = BUY \<and> position self = None then
               let pos = \<lparr>timestamp = t1, action = BUY, price = pr,
                          quantity = base_asset_amount self\<rparr>
               in self\<lparr>position := Some pos, trade_history := trade_history self @ [pos]\<rparr>
             else
               case position self of
                 Some pos \<Rightarrow>
                   if sig = SELL then
                     let sell_trade = \<lparr>timestamp = t1, action = SELL, price = pr,
                                       quantity = quantity pos\<rparr>
                     in self\<lparr>trade_history := trade_history self @ [sell_trade],
                             position := None\<rparr>
                   else self
               | None \<Rightarrow> self)
      in case position self1 of
           None \<Rightarrow> self1
         | Some pos \<Rightarrow>
             let entry_price = price pos;
                 sell_trade = \<lparr>timestamp = t2, action = SELL, price = pr,
                               quantity = quantity pos\<rparr>
             in if pr \<le> entry_price * (1 - stop_loss_pct self1) then
                  self1\<lparr>trade_history := trade_history self1 @ [sell_trade],
                         position := None\<rparr>
                else if pr \<ge> entry_price * (1 + take_profit_pct self1) then
                  self1\<lparr>trade_history := trade_history self1 @ [sell_trade],
                         position := None\<rparr>
                else self1)"

text \<open>
  The body of \<^verbatim>\<open>while self._running\<close>, without the final sleep: the fetched price is
  appended to the loop's local history \<open>prices\<close>, the history is capped, the strategy is
  asked and the order block runs. It returns the bot and the history after the iteration;
  an exception of \<^verbatim>\<open>generate_signal\<close> ends the worker.
\<close>

definition run_loop_body ::
  "TradingBot \<Rightarrow> real list \<Rightarrow> real \<Rightarrow> real \<Rightarrow> real \<Rightarrow> py_error + TradingBot \<times> real list" where
  "run_loop_body self prices pr t1 t2 =
     (let prices1 = prices @ [pr];
          cap = max 1000 (2 * long_window (strategy self));
          prices2 = (if int (length prices1) > cap then slice_from prices1 (- cap) else prices1)
      in case generate_signal (strategy self) prices2 of
           Inl e \<Rightarrow> Inl e
         | Inr (sig, strat) \<Rightarrow>
             Inr (run_loop_trade (self\<lparr>strategy := strat\<rparr>) sig pr t1 t2, prices2))"

subsection \<open>Backtest\<close>

text \<open>The local variables \<^verbatim>\<open>position\<close>, \<^verbatim>\<open>profit\<close> and \<^verbatim>\<open>trades\<close> of
  \<^verbatim>\<open>backtest\<close>, and the dictionary it returns.\<close>

record backtest_vars =
  loc_position :: "Trade option"
  loc_profit :: real
  loc_trades :: "Trade list"

record backtest_result =
  profit :: real
  trade_count :: nat
  trades :: "Trade list"

text \<open>The body of the \<^verbatim>\<open>for\<close> loop after the signal has been computed.\<close>

definition backtest_body ::
  "TradingBot \<Rightarrow> nat \<Rightarrow> real \<Rightarrow> signal \<Rightarrow> backtest_vars \<Rightarrow> backtest_vars" where
  "backtest_body self idx pr sig v =
     (let v1 =
            (if sig = BUY \<and> loc_position v = None then
               let pos = \<lparr>timestamp = real idx, action = BUY, price = pr,
                          quantity = base_asset_amount self\<rparr>
               in v\<lparr>loc_position := Some pos, loc_trades := loc_trades v @ [pos]\<rparr>
             else
               case loc_position v of
                 Some pos \<Rightarrow>
                   if sig = SELL then
                     let trade = \<lparr>timestamp = real idx, action = SELL, price = pr,
                                  quantity = quantity pos\<rparr>
                     in v\<lparr>loc_trades := loc_trades v @ [trade],
                          loc_profit := loc_profit v + (pr - price pos) * quantity pos,
                          loc_position := None\<rparr>
                   else v
               | None \<Rightarrow> v)
      in case loc_position v1 of
           None \<Rightarrow> v1
         | Some pos \<Rightarrow>
             let entry = price pos;
                 trade = \<lparr>timestamp = real idx, action = SELL, price = pr,
                          quantity = quantity pos\<rparr>
             in if pr \<le> entry * (1 - stop_loss_pct self) then
                  v1\<lparr>loc_trades := loc_trades v1 @ [trade],
                      loc_profit := loc_profit v1 + (pr - entry) * quantity pos,
                      loc_position := None\<rparr>
                else if pr \<ge> entry * (1 + take_profit_pct self) then
                  v1\<lparr>loc_trades := loc_trades v1 @ [trade],
                      loc_profit := loc_profit v1 + (pr - entry) * quantity pos,
                      loc_position := None\<rparr>
                else v1)"

text \<open>The loop \<^verbatim>\<open>for idx, price in enumerate(prices)\<close>. The strategy object belongs to
  the bot, so the bot is threaded through; an exception of \<^verbatim>\<open>generate_signal\<close> ends the
  loop and leaves the bot as it is at that moment.\<close>

fun backtest_loop ::
  "real list \<Rightarrow> (nat \<times> real) list \<Rightarrow> TradingBot \<Rightarrow> backtest_vars
     \<Rightarrow> (py_error + backtest_vars) \<times> TradingBot" where
  "backtest_loop prices [] self v = (Inr v, self)"
| "backtest_loop prices ((idx, pr) # rest) self v =
     (let window_prices = take (idx + 1) prices
      in case generate_signal (strategy self) window_prices of
           Inl e \<Rightarrow> (Inl e, self)
         | Inr (sig, strat) \<Rightarrow>
             let self1 = self\<lparr>strategy := strat\<rparr>
             in backtest_loop prices rest self1 (backtest_body self1 idx pr sig v))"

text \<open>\<^verbatim>\<open>backtest\<close>, from the fetched series \<open>prices\<close> on. It returns the result
  dictionary (or the exception) and the bot after the call.\<close>

definition backtest ::
  "TradingBot \<Rightarrow> real list \<Rightarrow> (py_error + backtest_result) \<times> TradingBot" where
  "backtest self prices =
     (case backtest_loop prices (enumerate 0 prices) self
             \<lparr>loc_position = None, loc_profit = 0, loc_trades = []\<rparr> of
        (Inl e, self1) \<Rightarrow> (Inl e, self1)
      | (Inr v, self1) \<Rightarrow>
          (Inr \<lparr>profit = loc_profit v, trade_count = length (loc_trades v),
                trades = loc_trades v\<rparr>, self1))"

section \<open>Ledgers, accounting and the backtest as a replay\<close>

text \<open>The closed (BUY, SELL) pairs of a ledger, in order; a last entry without a partner
  is an open position and belongs to no pair.\<close>

fun closed_pairs :: "Trade list \<Rightarrow> (Trade \<times> Trade) list" where
  "closed_pairs (entry # exit # rest) = (entry, exit) # closed_pairs rest"
| "closed_pairs _ = []"

text \<open>The sum over the closed pairs of (exit price - entry price) * quantity.\<close>

definition realized_profit :: "Trade list \<Rightarrow> real" where
  "realized_profit ledger =
     sum_list (map (\<lambda>(entry, exit). (price exit - price entry) * quantity entry)
       (closed_pairs ledger))"

text \<open>A ledger whose entries alternate BUY, SELL, BUY, ... and whose SELL has the
  quantity of the BUY before it.\<close>

fun alternating :: "Trade list \<Rightarrow> bool" where
  "alternating [] = True"
| "alternating [entry] = (action entry = BUY)"
| "alternating (entry # exit # rest) =
     (action entry = BUY \<and> action exit = SELL \<and> quantity exit = quantity entry
      \<and> alternating rest)"

text \<open>The position invariant: an open position is the last ledger entry, a BUY, and the
  ledger then holds one more BUY than SELL; with no position the ledger is empty or ends
  with a SELL and holds as many BUYs as SELLs.\<close>

definition ledger_inv :: "Trade option \<Rightarrow> Trade list \<Rightarrow> bool" where
  "ledger_inv pos ledger =
     (case pos of
        None \<Rightarrow>
          (ledger = [] \<or> action (last ledger) = SELL)
          \<and> count_list (map action ledger) BUY = count_list (map action ledger) SELL
      | Some p \<Rightarrow>
          ledger \<noteq> [] \<and> last ledger = p \<and> action p = BUY
          \<and> count_list (map action ledger) BUY = count_list (map action ledger) SELL + 1)"

text \<open>The accounting invariant of the backtest loop: the ledger alternates, the profit is
  the realized profit of the ledger, and the ledger has an unpaired last entry, the
  position, exactly when a position is open.\<close>

definition acct_inv :: "backtest_vars \<Rightarrow> bool" where
  "acct_inv v =
     (alternating (loc_trades v)
      \<and> loc_profit v = realized_profit (loc_trades v)
      \<and> (case loc_position v of
            None \<Rightarrow> even (length (loc_trades v))
          | Some p \<Rightarrow> odd (length (loc_trades v)) \<and> last (loc_trades v) = p))"

text \<open>The trades a tick has appended to a ledger.\<close>

definition emitted :: "Trade list \<Rightarrow> Trade list \<Rightarrow> Trade list" where
  "emitted before after = drop (length before) after"

text \<open>For each index of \<open>idxs\<close> in turn, the strategy is given the prefix of the series
  up to and including that index; the signals are collected.\<close>

fun feed_prefixes ::
  "SimpleSMAStrategy \<Rightarrow> real list \<Rightarrow> nat list \<Rightarrow> py_error + signal list \<times> SimpleSMAStrategy" where
  "feed_prefixes strat prices [] = Inr ([], strat)"
| "feed_prefixes strat prices (i # idxs) =
     (case generate_signal strat (take (Suc i) prices) of
        Inl e \<Rightarrow> Inl e
      | Inr (sig, strat1) \<Rightarrow>
          (case feed_prefixes strat1 prices idxs of
             Inl e \<Rightarrow> Inl e
           | Inr (sigs, strat2) \<Rightarrow> Inr (sig # sigs, strat2)))"

text \<open>The order logic of the backtest run over a given list of signals, one per tick.\<close>

definition replay ::
  "TradingBot \<Rightarrow> real list \<Rightarrow> signal list \<Rightarrow> backtest_vars" where
  "replay self prices sigs =
     foldl (\<lambda>v ((idx, pr), sig). backtest_body self idx pr sig v)
       \<lparr>loc_position = None, loc_profit = 0, loc_trades = []\<rparr>
       (zip (enumerate 0 prices) sigs)"

section \<open>Example inputs\<close>

definition example_strategy :: SimpleSMAStrategy where
  "example_strategy = \<lparr>short_window = 1, long_window = 2, last_cross_state = None\<rparr>"

definition example_bot :: TradingBot where
  "example_bot =
     \<lparr>symbol = ''BTCUSDT'', interval = ''1m'', base_asset_amount = 1,
      stop_loss_pct = 2 / 100, take_profit_pct = 3 / 100, max_position_size = 1 / 10,
      strategy = example_strategy, running = False, thread = None,
      position = None, trade_history = []\<rparr>"

definition example_config :: "string \<Rightarrow> config" where
  "example_config ty =
     \<lparr>cfg_symbol = None, cfg_interval = None, cfg_base_asset_amount = Some 1,
      cfg_stop_loss_pct = None, cfg_take_profit_pct = None, cfg_max_position_size = None,
      cfg_strategy_type = Some ty, cfg_short_window = Some 1, cfg_long_window = Some 2\<rparr>"

definition example_entry :: Trade where
  "example_entry = \<lparr>timestamp = 1, action = BUY, price = 100, quantity = 1\<rparr>"

definition example_open :: backtest_vars where
  "example_open = \<lparr>loc_position = Some example_entry, loc_profit = 0, loc_trades = [example_entry]\<rparr>"

definition example_flat :: backtest_vars where
  "example_flat = \<lparr>loc_position = None, loc_profit = 0, loc_trades = []\<rparr>"

section \<open>Properties of the strategy\<close>

lemma slice_from_last:
  "0 < w \<Longrightarrow> slice_from data (- w) = drop (length data - nat w) data"
  by (simp add: slice_from_def nat_diff_distrib')

lemma moving_average_nonzero:
  "w \<noteq> 0 \<Longrightarrow> \<exists>m. moving_average data w = Inr m"
  by (simp add: moving_average_def)

lemma generate_signal_zero_short:
  "short_window self = 0 \<Longrightarrow> long_window self \<le> int (length prices) \<Longrightarrow>
     generate_signal self prices = Inl ZeroDivisionError"
  by (simp add: generate_signal_def moving_average_def)

lemma generate_signal_zero_long:
  "long_window self = 0 \<Longrightarrow> generate_signal self prices = Inl ZeroDivisionError"
  by (simp add: generate_signal_def moving_average_def split: sum.splits)

lemma generate_signal_nonzero:
  "short_window self \<noteq> 0 \<Longrightarrow> long_window self \<noteq> 0 \<Longrightarrow>
     \<exists>r. generate_signal self prices = Inr r"
  by (simp add: generate_signal_def moving_average_def Let_def)

lemma generate_signal_windows:
  "generate_signal self prices = Inr (sig, strat) \<Longrightarrow>
     short_window strat = short_window self \<and> long_window strat = long_window self"
  by (auto simp: generate_signal_def Let_def split: if_splits sum.splits)

lemma generate_signal_exact:
  "generate_signal_float exact_ops self prices = generate_signal self prices"
  by (simp add: generate_signal_float_def generate_signal_def moving_average_float_def
      moving_average_def exact_ops_def)

lemma engine_instance_state:
  "engine_instance A self \<Longrightarrow>
     short_window self < long_window self
     \<and> (last_cross_state self = None \<or> last_cross_state self = Some 1
          \<or> last_cross_state self = Some (- 1))"
proof (induction rule: engine_instance.induct)
  case (constructed sw lw self)
  then show ?case by (auto simp add: SimpleSMAStrategy_init_def split: if_splits)
next
  case (called self prices sig self')
  then show ?case
    by (auto simp add: generate_signal_float_def Let_def split: if_splits sum.splits)
qed

lemma moving_average_float_last:
  "0 < w \<Longrightarrow> moving_average_float A data w = Inr (mean_last A (nat w) data)"
  by (simp add: moving_average_float_def mean_last_def slice_from_last)

text \<open>
  \<^bold>\<open>C1\<close>, as stated, fails for an engine the constructor accepts: with
  \<open>short_window = 0\<close> and \<open>long_window = 1\<close> the first call on a price list of length 1,
  where the claim has \<open>generate_signal\<close> record the state and return HOLD, raises
  \<^verbatim>\<open>ZeroDivisionError\<close>, whatever the arithmetic.
\<close>

theorem crossover_zero_window_counterexample:
  "SimpleSMAStrategy_init 0 1 =
      Inr \<lparr>short_window = 0, long_window = 1, last_cross_state = None\<rparr>
   \<and> engine_instance exact_ops \<lparr>short_window = 0, long_window = 1, last_cross_state = None\<rparr>
   \<and> long_window \<lparr>short_window = 0, long_window = 1, last_cross_state = None\<rparr>
        \<le> int (length [1 :: real])
   \<and> generate_signal \<lparr>short_window = 0, long_window = 1, last_cross_state = None\<rparr> [1]
        = Inl ZeroDivisionError
   \<and> (\<forall>A :: real float_ops.
         generate_signal_float A \<lparr>short_window = 0, long_window = 1, last_cross_state = None\<rparr> [1]
           = Inl ZeroDivisionError)"
proof -
  have c: "SimpleSMAStrategy_init 0 1 =
      Inr \<lparr>short_window = 0, long_window = 1, last_cross_state = None\<rparr>"
    by (simp add: SimpleSMAStrategy_init_def)
  from c have "engine_instance exact_ops
      \<lparr>short_window = 0, long_window = 1, last_cross_state = None\<rparr>"
    by (rule engine_instance.constructed)
  with c show ?thesis
    by (simp add: generate_signal_def moving_average_def generate_signal_float_def
        moving_average_float_def)
qed

text \<open>
  \<^bold>\<open>C1\<close>, amended. For every engine instance whose windows are both different from 0, in
  any arithmetic, and every price list at least as long as \<open>long_window\<close>: both means
  are computed, and \<open>generate_signal\<close> returns the signal of the crossover rule, namely
  HOLD when the stored state is still unset (the first determinable call), BUY on BELOW
  to ABOVE, SELL on ABOVE to BELOW, HOLD when the state is unchanged. The current state is
  ABOVE exactly when the computed \<open>short_ma\<close> is greater than the computed \<open>long_ma\<close>
  in the comparison of the arithmetic (so equal means count as BELOW), and it is the
  state stored after the call, whatever the signal. For a positive window the computed
  mean is the mean of the last \<open>window\<close> prices.
\<close>

theorem generate_signal_crossover:
  assumes inst: "engine_instance A self"
    and sw: "short_window self \<noteq> 0" and lw: "long_window self \<noteq> 0"
    and len: "long_window self \<le> int (length prices)"
  shows "\<exists>short_ma long_ma self'.
      moving_average_float A prices (short_window self) = Inr short_ma
    \<and> moving_average_float A prices (long_window self) = Inr long_ma
    \<and> (0 < short_window self \<longrightarrow> short_ma = mean_last A (nat (short_window self)) prices)
    \<and> (0 < long_window self \<longrightarrow> long_ma = mean_last A (nat (long_window self)) prices)
    \<and> generate_signal_float A self prices =
        Inr (spec_signal (cross_of (last_cross_state self))
               (spec_current_state A short_ma long_ma), self')
    \<and> self' = self\<lparr>last_cross_state := Some (if fgt A short_ma long_ma then 1 else - 1)\<rparr>
    \<and> cross_of (last_cross_state self') = spec_current_state A short_ma long_ma
    \<and> engine_instance A self'"
proof -
  let ?s = "fdiv A (fsum A (slice_from prices (- short_window self))) (short_window self)"
  let ?l = "fdiv A (fsum A (slice_from prices (- long_window self))) (long_window self)"
  let ?self' = "self\<lparr>last_cross_state := Some (if fgt A ?s ?l then 1 else - 1)\<rparr>"
  have ms: "moving_average_float A prices (short_window self) = Inr ?s"
    using sw by (simp add: moving_average_float_def)
  have ml: "moving_average_float A prices (long_window self) = Inr ?l"
    using lw by (simp add: moving_average_float_def)
  have ps: "0 < short_window self \<longrightarrow> ?s = mean_last A (nat (short_window self)) prices"
    using ms moving_average_float_last [of "short_window self" A prices] by auto
  have pl: "0 < long_window self \<longrightarrow> ?l = mean_last A (nat (long_window self)) prices"
    using ml moving_average_float_last [of "long_window self" A prices] by auto
  from engine_instance_state [OF inst]
  consider "last_cross_state self = None" | "last_cross_state self = Some 1"
    | "last_cross_state self = Some (- 1)"
    by auto
  then have run: "generate_signal_float A self prices =
        Inr (spec_signal (cross_of (last_cross_state self)) (spec_current_state A ?s ?l), ?self')"
  proof cases
    case 1
    with len ms ml show ?thesis
      by (simp add: generate_signal_float_def spec_signal_def spec_current_state_def
          cross_of_def Let_def)
  next
    case 2
    with len ms ml show ?thesis
      by (simp add: generate_signal_float_def spec_signal_def spec_current_state_def
          cross_of_def Let_def)
  next
    case 3
    with len ms ml show ?thesis
      by (simp add: generate_signal_float_def spec_signal_def spec_current_state_def
          cross_of_def Let_def)
  qed
  have st: "cross_of (last_cross_state ?self') = spec_current_state A ?s ?l"
    by (simp add: cross_of_def spec_current_state_def)
  have inst': "engine_instance A ?self'"
    using inst run by (rule engine_instance.called)
  from ms ml ps pl run st inst' show ?thesis by blast
qed

text \<open>The rule at work in exact arithmetic: the engine was built with windows 1 and 2
  and has seen 110, 100, so its state is BELOW; on 100, 110 the last price 110 lies above
  the mean 105 of the last two, the call returns BUY and stores ABOVE.\<close>

theorem generate_signal_crossover_witness:
  "engine_instance exact_ops (example_strategy\<lparr>last_cross_state := Some (- 1)\<rparr>)
   \<and> short_window (example_strategy\<lparr>last_cross_state := Some (- 1)\<rparr>) \<noteq> 0
   \<and> long_window (example_strategy\<lparr>last_cross_state := Some (- 1)\<rparr>) \<noteq> 0
   \<and> long_window (example_strategy\<lparr>last_cross_state := Some (- 1)\<rparr>)
        \<le> int (length [100, 110 :: real])
   \<and> generate_signal_float exact_ops (example_strategy\<lparr>last_cross_state := Some (- 1)\<rparr>)
        [100, 110]
       = Inr (BUY, example_strategy\<lparr>last_cross_state := Some 1\<rparr>)"
proof -
  let ?e = "example_strategy\<lparr>last_cross_state := Some (- 1)\<rparr>"
  have "SimpleSMAStrategy_init 1 2 = Inr example_strategy"
    by (simp add: SimpleSMAStrategy_init_def example_strategy_def)
  then have "engine_instance exact_ops example_strategy"
    by (rule engine_instance.constructed)
  moreover have "generate_signal_float exact_ops example_strategy [110, 100] = Inr (HOLD, ?e)"
    by (simp add: generate_signal_float_def moving_average_float_def slice_from_def
        exact_ops_def example_strategy_def)
  ultimately have inst: "engine_instance exact_ops ?e"
    by (rule engine_instance.called)
  have sw: "short_window ?e \<noteq> 0" and lw: "long_window ?e \<noteq> 0"
    by (simp_all add: example_strategy_def)
  have len: "long_window ?e \<le> int (length [100, 110 :: real])"
    by (simp add: example_strategy_def)
  have ms: "moving_average_float exact_ops [100, 110] (short_window ?e) = Inr 110"
    by (simp add: moving_average_float_def slice_from_def exact_ops_def example_strategy_def)
  have ml: "moving_average_float exact_ops [100, 110] (long_window ?e) = Inr 105"
    by (simp add: moving_average_float_def slice_from_def exact_ops_def example_strategy_def)
  from generate_signal_crossover [OF inst sw lw len]
  obtain short_ma long_ma self' where
    "moving_average_float exact_ops [100, 110] (short_window ?e) = Inr short_ma"
    and "moving_average_float exact_ops [100, 110] (long_window ?e) = Inr long_ma"
    and run: "generate_signal_float exact_ops ?e [100, 110] =
        Inr (spec_signal (cross_of (last_cross_state ?e))
               (spec_current_state exact_ops short_ma long_ma), self')"
    and st: "self' = ?e\<lparr>last_cross_state := Some (if fgt exact_ops short_ma long_ma then 1 else - 1)\<rparr>"
    by blast
  with ms ml have v: "short_ma = 110" "long_ma = 105" by simp_all
  have "generate_signal_float exact_ops ?e [100, 110]
       = Inr (BUY, example_strategy\<lparr>last_cross_state := Some 1\<rparr>)"
    unfolding run st v
    by (simp add: spec_signal_def cross_of_def spec_current_state_def exact_ops_def)
  with inst sw lw len show ?thesis by blast
qed

text \<open>
  \<^bold>\<open>C2.\<close> With fewer prices than \<open>long_window\<close>, \<open>generate_signal\<close> returns HOLD and
  leaves the strategy object, and so its cross state, exactly as it was. This holds for
  every engine and on every such call.
\<close>

theorem generate_signal_short_history:
  "int (length prices) < long_window self \<Longrightarrow> generate_signal self prices = Inr (HOLD, self)"
  by (simp add: generate_signal_def)

theorem generate_signal_short_history_witness:
  "int (length [5 :: real]) < long_window (example_strategy\<lparr>last_cross_state := Some 1\<rparr>)
   \<and> generate_signal (example_strategy\<lparr>last_cross_state := Some 1\<rparr>) [5]
       = Inr (HOLD, example_strategy\<lparr>last_cross_state := Some 1\<rparr>)"
  using generate_signal_short_history
    [of "[5]" "example_strategy\<lparr>last_cross_state := Some 1\<rparr>"]
  by (simp add: example_strategy_def)

text \<open>
  \<^bold>\<open>C7.\<close> Constructing the SMA strategy raises (a \<^verbatim>\<open>ValueError\<close>) exactly when
  \<open>long_window \<le> short_window\<close>, and succeeds in particular for positive windows with the
  long one larger. Constructing the bot raises for every strategy type other than
  \<^verbatim>\<open>"sma"\<close>; altogether it raises exactly when the type is unknown or the windows
  (with their defaults 7 and 25) are in the wrong order.
\<close>

theorem construction_fails_iff_invalid:
  "(SimpleSMAStrategy_init sw lw = Inl ValueError \<longleftrightarrow> lw \<le> sw)
   \<and> (0 < sw \<and> sw < lw \<longrightarrow>
        SimpleSMAStrategy_init sw lw =
          Inr \<lparr>short_window = sw, long_window = lw, last_cross_state = None\<rparr>)
   \<and> (get_default (cfg_strategy_type cfg) ''sma'' \<noteq> ''sma'' \<longrightarrow>
        TradingBot_init cfg = Inl ValueError)
   \<and> ((\<exists>e. TradingBot_init cfg = Inl e) \<longleftrightarrow>
        get_default (cfg_strategy_type cfg) ''sma'' \<noteq> ''sma''
        \<or> get_default (cfg_long_window cfg) 25 \<le> get_default (cfg_short_window cfg) 7)"
  by (simp add: SimpleSMAStrategy_init_def TradingBot_init_def Let_def)

theorem construction_fails_iff_invalid_witness:
  "SimpleSMAStrategy_init 7 7 = Inl ValueError
   \<and> SimpleSMAStrategy_init 7 25 =
       Inr \<lparr>short_window = 7, long_window = 25, last_cross_state = None\<rparr>
   \<and> TradingBot_init (example_config ''rsi'') = Inl ValueError
   \<and> (\<nexists>e. TradingBot_init (example_config ''sma'') = Inl e)"
  using construction_fails_iff_invalid [of 7 7 "example_config ''rsi''"]
    construction_fails_iff_invalid [of 7 25 "example_config ''sma''"]
  by (simp add: example_config_def get_default_def)

text \<open>
  \<^bold>\<open>C10\<close>, as stated, fails: the claim makes \<open>short_window \<ge> 1\<close> and \<open>long_window \<ge> 1\<close>
  necessary for \<open>generate_signal\<close> never to divide by zero. The constructor also accepts
  \<open>short_window = -1\<close> with \<open>long_window = 1\<close>, and there the divisors are -1 and 1: no
  price list makes the call fail.
\<close>

theorem total_only_positive_counterexample:
  "\<not> (\<forall>self. (\<forall>prices. generate_signal self prices \<noteq> Inl ZeroDivisionError)
         \<longrightarrow> 1 \<le> short_window self \<and> 1 \<le> long_window self)"
proof
  assume a: "\<forall>self. (\<forall>prices. generate_signal self prices \<noteq> Inl ZeroDivisionError)
         \<longrightarrow> 1 \<le> short_window self \<and> 1 \<le> long_window self"
  let ?e = "\<lparr>short_window = - 1, long_window = 1, last_cross_state = None\<rparr>"
  have "\<forall>prices. generate_signal ?e prices \<noteq> Inl ZeroDivisionError"
    by (simp add: generate_signal_def moving_average_def Let_def)
  with a have "1 \<le> short_window ?e" by blast
  then show False by simp
qed

text \<open>
  \<^bold>\<open>C10\<close>, amended. The constructor does not check the sign of the windows:
  \<open>short_window = 0\<close> with \<open>long_window = 1\<close> is accepted. \<open>generate_signal\<close> returns on
  every price list exactly when neither window is 0 (so in particular when both are at
  least 1). With \<open>short_window = 0\<close> it raises \<^verbatim>\<open>ZeroDivisionError\<close> on every price list
  of length at least \<open>long_window\<close>.
\<close>

theorem generate_signal_total_iff_nonzero:
  "SimpleSMAStrategy_init 0 1 =
      Inr \<lparr>short_window = 0, long_window = 1, last_cross_state = None\<rparr>
   \<and> ((\<forall>ps. \<exists>r. generate_signal self ps = Inr r) \<longleftrightarrow>
         short_window self \<noteq> 0 \<and> long_window self \<noteq> 0)
   \<and> (short_window self = 0 \<and> long_window self \<le> int (length prices) \<longrightarrow>
         generate_signal self prices = Inl ZeroDivisionError)"
proof (intro conjI impI)
  show "SimpleSMAStrategy_init 0 1 =
      Inr \<lparr>short_window = 0, long_window = 1, last_cross_state = None\<rparr>"
    by (simp add: SimpleSMAStrategy_init_def)
next
  show "(\<forall>ps. \<exists>r. generate_signal self ps = Inr r) \<longleftrightarrow>
         short_window self \<noteq> 0 \<and> long_window self \<noteq> 0"
  proof
    assume tot: "\<forall>ps. \<exists>r. generate_signal self ps = Inr r"
    have "short_window self \<noteq> 0"
    proof
      assume z: "short_window self = 0"
      have "long_window self \<le> int (length (replicate (nat (long_window self)) (0::real)))"
        by simp
      from generate_signal_zero_short [OF z this] tot show False
        by (metis sum.distinct(1))
    qed
    moreover have "long_window self \<noteq> 0"
    proof
      assume z: "long_window self = 0"
      from generate_signal_zero_long [OF z, of "[]"] tot show False
        by (metis sum.distinct(1))
    qed
    ultimately show "short_window self \<noteq> 0 \<and> long_window self \<noteq> 0" ..
  next
    assume "short_window self \<noteq> 0 \<and> long_window self \<noteq> 0"
    then show "\<forall>ps. \<exists>r. generate_signal self ps = Inr r"
      using generate_signal_nonzero by blast
  qed
next
  assume "short_window self = 0 \<and> long_window self \<le> int (length prices)"
  then show "generate_signal self prices = Inl ZeroDivisionError"
    by (simp add: generate_signal_zero_short)
qed

theorem generate_signal_total_iff_nonzero_witness:
  "generate_signal \<lparr>short_window = 0, long_window = 1, last_cross_state = None\<rparr> [1]
      = Inl ZeroDivisionError
   \<and> (\<forall>ps. \<exists>r. generate_signal example_strategy ps = Inr r)"
  using generate_signal_total_iff_nonzero
      [of "\<lparr>short_window = 0, long_window = 1, last_cross_state = None\<rparr>" "[1]"]
    generate_signal_total_iff_nonzero [of example_strategy "[]"]
  by (simp add: example_strategy_def)

section \<open>Properties of the bot\<close>

lemma example_bot_constructed: "TradingBot_init (example_config ''sma'') = Inr example_bot"
  by (simp add: TradingBot_init_def example_config_def get_default_def
      SimpleSMAStrategy_init_def example_bot_def example_strategy_def)

lemmas example_defs = example_bot_def example_strategy_def example_entry_def
  example_open_def example_flat_def

lemmas run_defs = backtest_def generate_signal_def moving_average_def slice_from_def
  backtest_body_def Let_def

lemma backtest_body_emitted:
  "loc_trades (backtest_body self idx pr sig v)
     = loc_trades v @ emitted (loc_trades v) (loc_trades (backtest_body self idx pr sig v))"
  by (simp add: backtest_body_def emitted_def Let_def split: option.splits)

lemma backtest_body_counts:
  "length (emitted (loc_trades v) (loc_trades (backtest_body self idx pr sig v))) \<le> 2
   \<and> count_list (map action (emitted (loc_trades v)
        (loc_trades (backtest_body self idx pr sig v)))) SELL \<le> 1
   \<and> count_list (map action (emitted (loc_trades v)
        (loc_trades (backtest_body self idx pr sig v)))) BUY \<le> 1"
  by (simp add: backtest_body_def emitted_def Let_def split: option.splits)

lemma backtest_body_sell_signal:
  "loc_position v = Some p \<Longrightarrow>
     emitted (loc_trades v) (loc_trades (backtest_body self idx pr SELL v))
       = [\<lparr>timestamp = real idx, action = SELL, price = pr, quantity = quantity p\<rparr>]
     \<and> loc_position (backtest_body self idx pr SELL v) = None"
  by (simp add: backtest_body_def emitted_def Let_def)

lemma backtest_body_single_unless_buy_on_flat:
  "\<not> (sig = BUY \<and> loc_position v = None) \<Longrightarrow>
     length (emitted (loc_trades v) (loc_trades (backtest_body self idx pr sig v))) \<le> 1"
  by (cases "loc_position v") (auto simp add: backtest_body_def emitted_def Let_def)

lemma backtest_body_buy_on_flat:
  assumes "loc_position v = None"
  shows "(emitted (loc_trades v) (loc_trades (backtest_body self idx pr BUY v))
            = [\<lparr>timestamp = real idx, action = BUY, price = pr,
                 quantity = base_asset_amount self\<rparr>]
          \<and> loc_position (backtest_body self idx pr BUY v)
            = Some \<lparr>timestamp = real idx, action = BUY, price = pr,
                     quantity = base_asset_amount self\<rparr>)
       \<or> (emitted (loc_trades v) (loc_trades (backtest_body self idx pr BUY v))
            = [\<lparr>timestamp = real idx, action = BUY, price = pr,
                 quantity = base_asset_amount self\<rparr>,
               \<lparr>timestamp = real idx, action = SELL, price = pr,
                 quantity = base_asset_amount self\<rparr>]
          \<and> loc_position (backtest_body self idx pr BUY v) = None)"
  using assms by (simp add: backtest_body_def emitted_def Let_def)

lemma run_loop_trade_emitted:
  "trade_history (run_loop_trade self sig pr t1 t2)
     = trade_history self @ emitted (trade_history self)
         (trade_history (run_loop_trade self sig pr t1 t2))"
  by (simp add: run_loop_trade_def emitted_def Let_def split: option.splits)

lemma run_loop_trade_counts:
  "length (emitted (trade_history self) (trade_history (run_loop_trade self sig pr t1 t2))) \<le> 2
   \<and> count_list (map action (emitted (trade_history self)
        (trade_history (run_loop_trade self sig pr t1 t2)))) SELL \<le> 1
   \<and> count_list (map action (emitted (trade_history self)
        (trade_history (run_loop_trade self sig pr t1 t2)))) BUY \<le> 1"
  by (simp add: run_loop_trade_def emitted_def Let_def split: option.splits)

lemma run_loop_trade_sell_signal:
  "position self = Some p \<Longrightarrow>
     emitted (trade_history self) (trade_history (run_loop_trade self SELL pr t1 t2))
       = [\<lparr>timestamp = t1, action = SELL, price = pr, quantity = quantity p\<rparr>]
     \<and> position (run_loop_trade self SELL pr t1 t2) = None"
  by (simp add: run_loop_trade_def emitted_def Let_def)

lemma run_loop_trade_single_unless_buy_on_flat:
  "\<not> (sig = BUY \<and> position self = None) \<Longrightarrow>
     length (emitted (trade_history self)
       (trade_history (run_loop_trade self sig pr t1 t2))) \<le> 1"
  by (cases "position self") (auto simp add: run_loop_trade_def emitted_def Let_def)

lemma run_loop_trade_buy_on_flat:
  assumes "position self = None"
  shows "(emitted (trade_history self) (trade_history (run_loop_trade self BUY pr t1 t2))
            = [\<lparr>timestamp = t1, action = BUY, price = pr,
                 quantity = base_asset_amount self\<rparr>]
          \<and> position (run_loop_trade self BUY pr t1 t2)
            = Some \<lparr>timestamp = t1, action = BUY, price = pr,
                     quantity = base_asset_amount self\<rparr>)
       \<or> (emitted (trade_history self) (trade_history (run_loop_trade self BUY pr t1 t2))
            = [\<lparr>timestamp = t1, action = BUY, price = pr,
                 quantity = base_asset_amount self\<rparr>,
               \<lparr>timestamp = t2, action = SELL, price = pr,
                 quantity = base_asset_amount self\<rparr>]
          \<and> position (run_loop_trade self BUY pr t1 t2) = None)"
  using assms by (simp add: run_loop_trade_def emitted_def Let_def)

lemma backtest_body_inv:
  "ledger_inv (loc_position v) (loc_trades v) \<Longrightarrow>
     ledger_inv (loc_position (backtest_body self idx pr sig v))
       (loc_trades (backtest_body self idx pr sig v))"
  by (auto simp add: backtest_body_def ledger_inv_def Let_def split: option.splits)

lemma run_loop_trade_inv:
  "ledger_inv (position self) (trade_history self) \<Longrightarrow>
     ledger_inv (position (run_loop_trade self sig pr t1 t2))
       (trade_history (run_loop_trade self sig pr t1 t2))"
  by (auto simp add: run_loop_trade_def ledger_inv_def Let_def split: option.splits)

lemma run_loop_body_inv:
  assumes inv: "ledger_inv (position self) (trade_history self)"
    and run: "run_loop_body self prices pr t1 t2 = Inr (self', prices')"
  shows "ledger_inv (position self') (trade_history self')"
proof -
  from run obtain sig strat where
    s: "self' = run_loop_trade (self\<lparr>strategy := strat\<rparr>) sig pr t1 t2"
    by (auto simp add: run_loop_body_def Let_def split: sum.splits)
  have "ledger_inv (position (self\<lparr>strategy := strat\<rparr>)) (trade_history (self\<lparr>strategy := strat\<rparr>))"
    using inv by simp
  from run_loop_trade_inv [OF this] show ?thesis unfolding s .
qed

lemma backtest_body_buy_ignored:
  assumes "loc_position v \<noteq> None"
  shows "backtest_body self idx pr BUY v = backtest_body self idx pr HOLD v"
proof -
  from assms obtain p where "loc_position v = Some p" by blast
  then show ?thesis by (simp add: backtest_body_def)
qed

lemma run_loop_trade_buy_ignored:
  assumes "position self \<noteq> None"
  shows "run_loop_trade self BUY pr t1 t2 = run_loop_trade self HOLD pr t1 t2"
proof -
  from assms obtain p where "position self = Some p" by blast
  then show ?thesis by (simp add: run_loop_trade_def)
qed

lemma backtest_body_buy_open_unchanged:
  "loc_position v = Some p \<Longrightarrow> \<not> pr \<le> price p * (1 - stop_loss_pct self) \<Longrightarrow>
   \<not> pr \<ge> price p * (1 + take_profit_pct self) \<Longrightarrow> backtest_body self idx pr BUY v = v"
  by (simp add: backtest_body_def Let_def)

lemma run_loop_trade_buy_open_unchanged:
  "position self = Some p \<Longrightarrow> \<not> pr \<le> price p * (1 - stop_loss_pct self) \<Longrightarrow>
   \<not> pr \<ge> price p * (1 + take_profit_pct self) \<Longrightarrow> run_loop_trade self BUY pr t1 t2 = self"
  by (simp add: run_loop_trade_def Let_def)

lemma ledger_inv_iff:
  "ledger_inv pos ledger \<Longrightarrow>
     (pos \<noteq> None \<longleftrightarrow> ledger \<noteq> [] \<and> action (last ledger) = BUY)
     \<and> (pos \<noteq> None \<longleftrightarrow>
          count_list (map action ledger) BUY = count_list (map action ledger) SELL + 1)
     \<and> count_list (map action ledger) BUY \<le> count_list (map action ledger) SELL + 1"
  by (cases pos) (auto simp add: ledger_inv_def)

lemma backtest_loop_frame:
  "backtest_loop prices ixs self v = (r, self') \<Longrightarrow> self' = self\<lparr>strategy := strategy self'\<rparr>"
proof (induction ixs arbitrary: self v)
  case Nil
  then show ?case by simp
next
  case (Cons ip ixs)
  obtain idx pr where ip: "ip = (idx, pr)" by (cases ip)
  show ?case
  proof (cases "generate_signal (strategy self) (take (idx + 1) prices)")
    case (Inl e)
    with Cons.prems ip show ?thesis by simp
  next
    case (Inr sr)
    obtain sig strat where sr: "sr = (sig, strat)" by (cases sr)
    from Cons.prems ip Inr sr
    have "backtest_loop prices ixs (self\<lparr>strategy := strat\<rparr>)
            (backtest_body (self\<lparr>strategy := strat\<rparr>) idx pr sig v) = (r, self')"
      by (simp add: Let_def)
    from Cons.IH [OF this] have "self' = self\<lparr>strategy := strategy self'\<rparr>" by simp
    then show ?thesis .
  qed
qed

text \<open>
  \<^bold>\<open>C4.\<close> The code at the failing input. The bot is the one the constructor builds from
  a configuration with windows 1 and 2 and quantity 1. Its first backtest over the
  series 100, 110, 100 makes no trade: the crossing at 110 is the first observation. The
  strategy object keeps the last cross state, BELOW, and \<open>backtest\<close> does not reset it, so
  the second backtest of the same bot over the same series sees a BELOW to ABOVE crossing
  at 110, buys there and sells at 100: two trades, profit -10.
\<close>

theorem backtest_twice_differs:
  "TradingBot_init (example_config ''sma'') = Inr example_bot
   \<and> fst (backtest example_bot [100, 110, 100])
       = Inr \<lparr>profit = 0, trade_count = 0, trades = []\<rparr>
   \<and> fst (backtest (snd (backtest example_bot [100, 110, 100])) [100, 110, 100])
       = Inr \<lparr>profit = - 10, trade_count = 2, trades =
            [\<lparr>timestamp = 1, action = BUY, price = 110, quantity = 1\<rparr>,
             \<lparr>timestamp = 2, action = SELL, price = 100, quantity = 1\<rparr>]\<rparr>"
proof -
  have first: "backtest example_bot [100, 110, 100] =
     (Inr \<lparr>profit = 0, trade_count = 0, trades = []\<rparr>,
      example_bot\<lparr>strategy := example_strategy\<lparr>last_cross_state := Some (- 1)\<rparr>\<rparr>)"
    by (simp add: run_defs example_defs)
  have second: "fst (backtest (example_bot\<lparr>strategy :=
        example_strategy\<lparr>last_cross_state := Some (- 1)\<rparr>\<rparr>) [100, 110, 100])
       = Inr \<lparr>profit = - 10, trade_count = 2, trades =
            [\<lparr>timestamp = 1, action = BUY, price = 110, quantity = 1\<rparr>,
             \<lparr>timestamp = 2, action = SELL, price = 100, quantity = 1\<rparr>]\<rparr>"
    by (simp add: run_defs example_defs)
  show ?thesis
    using example_bot_constructed second by (simp add: first)
qed

text \<open>
  \<^bold>\<open>C5\<close>, as stated, fails: with \<open>stop_loss_pct = 0\<close> a BUY signal on a flat book opens a
  position and the stop-loss check, which runs right after on the position just opened
  (\<open>price \<le> entry * 1\<close>), closes it again. The tick emits two trades, in the backtest and
  in the live loop.
\<close>

theorem tick_two_trades_counterexample:
  "emitted (loc_trades example_flat)
     (loc_trades (backtest_body (example_bot\<lparr>stop_loss_pct := 0\<rparr>) 3 100 BUY example_flat))
     = [\<lparr>timestamp = 3, action = BUY, price = 100, quantity = 1\<rparr>,
        \<lparr>timestamp = 3, action = SELL, price = 100, quantity = 1\<rparr>]
   \<and> emitted (trade_history example_bot)
     (trade_history (run_loop_trade (example_bot\<lparr>stop_loss_pct := 0\<rparr>) BUY 100 7 8))
     = [\<lparr>timestamp = 7, action = BUY, price = 100, quantity = 1\<rparr>,
        \<lparr>timestamp = 8, action = SELL, price = 100, quantity = 1\<rparr>]"
  by (simp add: emitted_def backtest_body_def run_loop_trade_def Let_def example_defs)

text \<open>
  \<^bold>\<open>C5\<close>, amended. In the backtest and in the live loop alike, a tick appends to the
  ledger at most one BUY and at most one SELL. The signal block runs before the
  stop-loss/take-profit block, which looks at the position only if one is still open:
  a SELL signal on an open position emits exactly one SELL, the signal's, and leaves no
  position, whatever the thresholds say. Every tick other than a BUY signal on a flat
  book emits zero or one trade, for any price and any thresholds. A BUY signal on a flat
  book emits the BUY and, when a threshold test holds of the position just opened, the
  SELL that closes it in the same tick: one trade or two.
\<close>

theorem tick_emits_at_most_one_trade:
  "loc_trades (backtest_body self idx pr sig v)
     = loc_trades v @ emitted (loc_trades v) (loc_trades (backtest_body self idx pr sig v))
   \<and> count_list (map action (emitted (loc_trades v)
        (loc_trades (backtest_body self idx pr sig v)))) SELL \<le> 1
   \<and> count_list (map action (emitted (loc_trades v)
        (loc_trades (backtest_body self idx pr sig v)))) BUY \<le> 1
   \<and> (\<forall>p. loc_position v = Some p \<longrightarrow>
         emitted (loc_trades v) (loc_trades (backtest_body self idx pr SELL v))
           = [\<lparr>timestamp = real idx, action = SELL, price = pr, quantity = quantity p\<rparr>]
         \<and> loc_position (backtest_body self idx pr SELL v) = None)
   \<and> (\<not> (sig = BUY \<and> loc_position v = None) \<longrightarrow>
         length (emitted (loc_trades v) (loc_trades (backtest_body self idx pr sig v))) \<le> 1)
   \<and> (loc_position v = None \<longrightarrow>
         (emitted (loc_trades v) (loc_trades (backtest_body self idx pr BUY v))
            = [\<lparr>timestamp = real idx, action = BUY, price = pr,
                 quantity = base_asset_amount self\<rparr>]
          \<and> loc_position (backtest_body self idx pr BUY v)
            = Some \<lparr>timestamp = real idx, action = BUY, price = pr,
                     quantity = base_asset_amount self\<rparr>)
       \<or> (emitted (loc_trades v) (loc_trades (backtest_body self idx pr BUY v))
            = [\<lparr>timestamp = real idx, action = BUY, price = pr,
                 quantity = base_asset_amount self\<rparr>,
               \<lparr>timestamp = real idx, action = SELL, price = pr,
                 quantity = base_asset_amount self\<rparr>]
          \<and> loc_position (backtest_body self idx pr BUY v) = None))
   \<and> trade_history (run_loop_trade self sig pr t1 t2)
     = trade_history self @ emitted (trade_history self)
         (trade_history (run_loop_trade self sig pr t1 t2))
   \<and> count_list (map action (emitted (trade_history self)
        (trade_history (run_loop_trade self sig pr t1 t2)))) SELL \<le> 1
   \<and> count_list (map action (emitted (trade_history self)
        (trade_history (run_loop_trade self sig pr t1 t2)))) BUY \<le> 1
   \<and> (\<forall>p. position self = Some p \<longrightarrow>
         emitted (trade_history self) (trade_history (run_loop_trade self SELL pr t1 t2))
           = [\<lparr>timestamp = t1, action = SELL, price = pr, quantity = quantity p\<rparr>]
         \<and> position (run_loop_trade self SELL pr t1 t2) = None)
   \<and> (\<not> (sig = BUY \<and> position self = None) \<longrightarrow>
         length (emitted (trade_history self)
           (trade_history (run_loop_trade self sig pr t1 t2))) \<le> 1)
   \<and> (position self = None \<longrightarrow>
         (emitted (trade_history self) (trade_history (run_loop_trade self BUY pr t1 t2))
            = [\<lparr>timestamp = t1, action = BUY, price = pr,
                 quantity = base_asset_amount self\<rparr>]
          \<and> position (run_loop_trade self BUY pr t1 t2)
            = Some \<lparr>timestamp = t1, action = BUY, price = pr,
                     quantity = base_asset_amount self\<rparr>)
       \<or> (emitted (trade_history self) (trade_history (run_loop_trade self BUY pr t1 t2))
            = [\<lparr>timestamp = t1, action = BUY, price = pr,
                 quantity = base_asset_amount self\<rparr>,
               \<lparr>timestamp = t2, action = SELL, price = pr,
                 quantity = base_asset_amount self\<rparr>]
          \<and> position (run_loop_trade self BUY pr t1 t2) = None))"
proof -
  have b1: "loc_trades (backtest_body self idx pr sig v)
     = loc_trades v @ emitted (loc_trades v) (loc_trades (backtest_body self idx pr sig v))"
    by (rule backtest_body_emitted)
  have b2: "count_list (map action (emitted (loc_trades v)
        (loc_trades (backtest_body self idx pr sig v)))) SELL \<le> 1"
    using backtest_body_counts by blast
  have b3: "count_list (map action (emitted (loc_trades v)
        (loc_trades (backtest_body self idx pr sig v)))) BUY \<le> 1"
    using backtest_body_counts by blast
  have b4: "\<forall>p. loc_position v = Some p \<longrightarrow>
         emitted (loc_trades v) (loc_trades (backtest_body self idx pr SELL v))
           = [\<lparr>timestamp = real idx, action = SELL, price = pr, quantity = quantity p\<rparr>]
         \<and> loc_position (backtest_body self idx pr SELL v) = None"
    using backtest_body_sell_signal by blast
  have b5: "\<not> (sig = BUY \<and> loc_position v = None) \<longrightarrow>
         length (emitted (loc_trades v) (loc_trades (backtest_body self idx pr sig v))) \<le> 1"
    using backtest_body_single_unless_buy_on_flat by blast
  note b6 = backtest_body_buy_on_flat [of v self idx pr]
  have l1: "trade_history (run_loop_trade self sig pr t1 t2)
     = trade_history self @ emitted (trade_history self)
         (trade_history (run_loop_trade self sig pr t1 t2))"
    by (rule run_loop_trade_emitted)
  have l2: "count_list (map action (emitted (trade_history self)
        (trade_history (run_loop_trade self sig pr t1 t2)))) SELL \<le> 1"
    using run_loop_trade_counts by blast
  have l3: "count_list (map action (emitted (trade_history self)
        (trade_history (run_loop_trade self sig pr t1 t2)))) BUY \<le> 1"
    using run_loop_trade_counts by blast
  have l4: "\<forall>p. position self = Some p \<longrightarrow>
         emitted (trade_history self) (trade_history (run_loop_trade self SELL pr t1 t2))
           = [\<lparr>timestamp = t1, action = SELL, price = pr, quantity = quantity p\<rparr>]
         \<and> position (run_loop_trade self SELL pr t1 t2) = None"
    using run_loop_trade_sell_signal by blast
  have l5: "\<not> (sig = BUY \<and> position self = None) \<longrightarrow>
         length (emitted (trade_history self)
           (trade_history (run_loop_trade self sig pr t1 t2))) \<le> 1"
    using run_loop_trade_single_unless_buy_on_flat by blast
  note l6 = run_loop_trade_buy_on_flat [of self pr t1 t2]
  show ?thesis
    apply (intro conjI)
               apply (rule b1)
              apply (rule b2)
             apply (rule b3)
            apply (rule b4)
           apply (rule b5)
          apply (rule impI)
          apply (erule b6)
         apply (rule l1)
        apply (rule l2)
       apply (rule l3)
      apply (rule l4)
     apply (rule l5)
    apply (rule impI)
    apply (erule l6)
    done
qed

text \<open>A position bought at 100 and a price of 90, below the stop-loss level 98, on a
  tick whose signal is SELL: one SELL is emitted, not two.\<close>

theorem tick_emits_at_most_one_trade_witness:
  "emitted (loc_trades example_open) (loc_trades (backtest_body example_bot 5 90 SELL example_open))
     = [\<lparr>timestamp = 5, action = SELL, price = 90, quantity = 1\<rparr>]
   \<and> loc_position (backtest_body example_bot 5 90 SELL example_open) = None
   \<and> length (emitted (loc_trades example_open)
        (loc_trades (backtest_body example_bot 5 90 BUY example_open))) \<le> 1
   \<and> length (emitted (loc_trades example_flat)
        (loc_trades (backtest_body example_bot 5 90 BUY example_flat))) \<le> 2"
proof -
  have pos: "loc_position example_open = Some example_entry"
    by (simp add: example_open_def)
  have q: "quantity example_entry = 1"
    by (simp add: example_entry_def)
  have flat: "loc_position example_flat = None"
    by (simp add: example_flat_def)
  have nb: "\<not> (BUY = BUY \<and> loc_position example_open = None)"
    by (simp add: example_open_def)
  from pos tick_emits_at_most_one_trade
      [where v = example_open and self = example_bot and idx = 5 and pr = 90]
  have "emitted (loc_trades example_open)
          (loc_trades (backtest_body example_bot 5 90 SELL example_open))
          = [\<lparr>timestamp = real 5, action = SELL, price = 90, quantity = quantity example_entry\<rparr>]
        \<and> loc_position (backtest_body example_bot 5 90 SELL example_open) = None"
    by blast
  moreover from nb tick_emits_at_most_one_trade
      [where v = example_open and self = example_bot and idx = 5 and pr = 90 and sig = BUY]
  have "length (emitted (loc_trades example_open)
        (loc_trades (backtest_body example_bot 5 90 BUY example_open))) \<le> 1"
    by blast
  moreover have "length (emitted (loc_trades example_flat)
        (loc_trades (backtest_body example_bot 5 90 BUY example_flat))) \<le> 2"
  proof -
    from flat tick_emits_at_most_one_trade
      [where v = example_flat and self = example_bot and idx = 5 and pr = 90 and sig = BUY]
    have "(\<exists>b. emitted (loc_trades example_flat)
              (loc_trades (backtest_body example_bot 5 90 BUY example_flat)) = [b])
        \<or> (\<exists>b s. emitted (loc_trades example_flat)
              (loc_trades (backtest_body example_bot 5 90 BUY example_flat)) = [b, s])"
      by blast
    then show ?thesis by auto
  qed
  ultimately show ?thesis by (simp add: q)
qed

text \<open>
  \<^bold>\<open>C6.\<close> The position invariant (an open position is the last ledger entry, a BUY, and
  the ledger then holds one more BUY than SELL; otherwise the ledger is empty or ends
  with a SELL and holds as many BUYs as SELLs) holds for the empty book and is preserved
  by every tick of the backtest and of the live loop, so at most one position is open at
  any time. A BUY signal while a position is open is ignored: the tick does exactly what
  it does for HOLD, it appends no BUY and opens nothing, and when no stop-loss or
  take-profit level is hit, position and ledger are unchanged. Under the invariant a
  position exists exactly when the last ledger entry is a BUY, and exactly when the
  ledger holds one more BUY than SELL.
\<close>

theorem tick_preserves_position_invariant:
  "ledger_inv None []
   \<and> (ledger_inv (loc_position v) (loc_trades v) \<longrightarrow>
        ledger_inv (loc_position (backtest_body self idx pr sig v))
          (loc_trades (backtest_body self idx pr sig v)))
   \<and> (ledger_inv (position self) (trade_history self) \<longrightarrow>
        ledger_inv (position (run_loop_trade self sig pr t1 t2))
          (trade_history (run_loop_trade self sig pr t1 t2)))
   \<and> (ledger_inv (position self) (trade_history self)
        \<and> run_loop_body self prices pr t1 t2 = Inr (self', prices') \<longrightarrow>
        ledger_inv (position self') (trade_history self'))
   \<and> (loc_position v \<noteq> None \<longrightarrow>
        backtest_body self idx pr BUY v = backtest_body self idx pr HOLD v)
   \<and> (position self \<noteq> None \<longrightarrow>
        run_loop_trade self BUY pr t1 t2 = run_loop_trade self HOLD pr t1 t2)
   \<and> (\<forall>p. loc_position v = Some p \<and> \<not> pr \<le> price p * (1 - stop_loss_pct self)
          \<and> \<not> pr \<ge> price p * (1 + take_profit_pct self) \<longrightarrow>
        backtest_body self idx pr BUY v = v)
   \<and> (\<forall>p. position self = Some p \<and> \<not> pr \<le> price p * (1 - stop_loss_pct self)
          \<and> \<not> pr \<ge> price p * (1 + take_profit_pct self) \<longrightarrow>
        run_loop_trade self BUY pr t1 t2 = self)
   \<and> (ledger_inv pos ledger \<longrightarrow>
        (pos \<noteq> None \<longleftrightarrow> ledger \<noteq> [] \<and> action (last ledger) = BUY)
        \<and> (pos \<noteq> None \<longleftrightarrow>
             count_list (map action ledger) BUY = count_list (map action ledger) SELL + 1)
        \<and> count_list (map action ledger) BUY \<le> count_list (map action ledger) SELL + 1)"
proof (intro conjI)
  show "ledger_inv None []" by (simp add: ledger_inv_def)
  show "ledger_inv (loc_position v) (loc_trades v) \<longrightarrow>
        ledger_inv (loc_position (backtest_body self idx pr sig v))
          (loc_trades (backtest_body self idx pr sig v))"
    using backtest_body_inv by blast
  show "ledger_inv (position self) (trade_history self) \<longrightarrow>
        ledger_inv (position (run_loop_trade self sig pr t1 t2))
          (trade_history (run_loop_trade self sig pr t1 t2))"
    using run_loop_trade_inv by blast
  show "ledger_inv (position self) (trade_history self)
        \<and> run_loop_body self prices pr t1 t2 = Inr (self', prices') \<longrightarrow>
        ledger_inv (position self') (trade_history self')"
    using run_loop_body_inv by blast
  show "loc_position v \<noteq> None \<longrightarrow>
        backtest_body self idx pr BUY v = backtest_body self idx pr HOLD v"
    using backtest_body_buy_ignored by blast
  show "position self \<noteq> None \<longrightarrow>
        run_loop_trade self BUY pr t1 t2 = run_loop_trade self HOLD pr t1 t2"
    using run_loop_trade_buy_ignored by blast
  show "\<forall>p. loc_position v = Some p \<and> \<not> pr \<le> price p * (1 - stop_loss_pct self)
          \<and> \<not> pr \<ge> price p * (1 + take_profit_pct self) \<longrightarrow>
        backtest_body self idx pr BUY v = v"
    using backtest_body_buy_open_unchanged by blast
  show "\<forall>p. position self = Some p \<and> \<not> pr \<le> price p * (1 - stop_loss_pct self)
          \<and> \<not> pr \<ge> price p * (1 + take_profit_pct self) \<longrightarrow>
        run_loop_trade self BUY pr t1 t2 = self"
    using run_loop_trade_buy_open_unchanged by blast
  show "ledger_inv pos ledger \<longrightarrow>
        (pos \<noteq> None \<longleftrightarrow> ledger \<noteq> [] \<and> action (last ledger) = BUY)
        \<and> (pos \<noteq> None \<longleftrightarrow>
             count_list (map action ledger) BUY = count_list (map action ledger) SELL + 1)
        \<and> count_list (map action ledger) BUY \<le> count_list (map action ledger) SELL + 1"
    using ledger_inv_iff by blast
qed

text \<open>A position bought at 100, a BUY signal at 101: nothing changes, and the invariant
  holds before and after.\<close>

theorem tick_preserves_position_invariant_witness:
  "ledger_inv (loc_position example_open) (loc_trades example_open)
   \<and> backtest_body example_bot 5 101 BUY example_open = example_open
   \<and> ledger_inv (loc_position (backtest_body example_bot 5 101 BUY example_open))
        (loc_trades (backtest_body example_bot 5 101 BUY example_open))"
proof -
  have inv: "ledger_inv (loc_position example_open) (loc_trades example_open)"
    by (simp add: ledger_inv_def example_defs)
  have lo: "\<not> (101 :: real) \<le> price example_entry * (1 - stop_loss_pct example_bot)"
    by (simp add: example_defs)
  have hi: "\<not> (101 :: real) \<ge> price example_entry * (1 + take_profit_pct example_bot)"
    by (simp add: example_defs)
  have pos: "loc_position example_open = Some example_entry"
    by (simp add: example_open_def)
  note t = tick_preserves_position_invariant
      [where v = example_open and self = example_bot and idx = 5 and pr = 101 and sig = BUY]
  from t inv have "ledger_inv (loc_position (backtest_body example_bot 5 101 BUY example_open))
        (loc_trades (backtest_body example_bot 5 101 BUY example_open))"
    by blast
  moreover from t pos lo hi have "backtest_body example_bot 5 101 BUY example_open = example_open"
    by blast
  ultimately show ?thesis using inv by blast
qed

text \<open>
  \<^bold>\<open>C8.\<close> \<open>start\<close> on a running bot returns at once: the bot is unchanged and no thread
  is started. \<open>stop\<close> on an idle bot (not running, no thread handle) changes nothing,
  joins nothing and cannot raise. After any \<open>stop\<close> the running flag is false and the
  thread handle is cleared.
\<close>

theorem start_stop_noop:
  "(running self \<longrightarrow> start self = (self, []))
   \<and> (\<not> running self \<and> thread self = None \<longrightarrow> stop alive self = (self, []))
   \<and> running (fst (stop alive self)) = False
   \<and> thread (fst (stop alive self)) = None"
  by (simp add: start_def stop_def Let_def)

theorem start_stop_noop_witness:
  "start (example_bot\<lparr>running := True, thread := Some WorkerThread\<rparr>)
      = (example_bot\<lparr>running := True, thread := Some WorkerThread\<rparr>, [])
   \<and> stop True example_bot = (example_bot, [])
   \<and> fst (stop True (example_bot\<lparr>running := True, thread := Some WorkerThread\<rparr>)) = example_bot"
  using start_stop_noop [of "example_bot\<lparr>running := True, thread := Some WorkerThread\<rparr>" True]
    start_stop_noop [of example_bot True]
  by (simp add: example_bot_def stop_def)

text \<open>
  \<^bold>\<open>C9.\<close> Whatever the series and whether or not the run ends in an exception,
  \<open>backtest\<close> leaves the bot's live position and live ledger as they were; the only
  attribute of the bot that can differ after the call is the strategy object.
\<close>

theorem backtest_frame:
  "position (snd (backtest self prices)) = position self
   \<and> trade_history (snd (backtest self prices)) = trade_history self
   \<and> snd (backtest self prices) = self\<lparr>strategy := strategy (snd (backtest self prices))\<rparr>"
proof -
  obtain r self' where l: "backtest_loop prices (enumerate 0 prices) self
             \<lparr>loc_position = None, loc_profit = 0, loc_trades = []\<rparr> = (r, self')"
    by (cases "backtest_loop prices (enumerate 0 prices) self
             \<lparr>loc_position = None, loc_profit = 0, loc_trades = []\<rparr>")
  have s: "snd (backtest self prices) = self'"
    using l by (simp add: backtest_def split: sum.splits)
  from backtest_loop_frame [OF l] have f: "self' = self\<lparr>strategy := strategy self'\<rparr>" .
  have "position self' = position self" by (subst f) simp
  moreover have "trade_history self' = trade_history self" by (subst f) simp
  ultimately show ?thesis using s f by simp
qed

section \<open>Accounting of the backtest\<close>

lemma closed_pairs_append_even:
  "even (length l) \<Longrightarrow> closed_pairs (l @ [b]) = closed_pairs l"
  by (induction l rule: closed_pairs.induct) simp_all

lemma closed_pairs_append_odd:
  "odd (length l) \<Longrightarrow> closed_pairs (l @ [s]) = closed_pairs l @ [(last l, s)]"
  by (induction l rule: closed_pairs.induct) auto

lemma alternating_append_even:
  "even (length l) \<Longrightarrow> alternating (l @ [b]) = (alternating l \<and> action b = BUY)"
  by (induction l rule: closed_pairs.induct) auto

lemma alternating_append_odd:
  "odd (length l) \<Longrightarrow>
     alternating (l @ [s]) =
       (alternating l \<and> action s = SELL \<and> quantity s = quantity (last l))"
  by (induction l rule: closed_pairs.induct) auto

lemma realized_profit_append_even:
  "even (length l) \<Longrightarrow> realized_profit (l @ [b]) = realized_profit l"
  by (simp add: realized_profit_def closed_pairs_append_even)

lemma realized_profit_append_odd:
  "odd (length l) \<Longrightarrow>
     realized_profit (l @ [s]) =
       realized_profit l + (price s - price (last l)) * quantity (last l)"
  by (simp add: realized_profit_def closed_pairs_append_odd)

lemma alternating_last_buy:
  "alternating l \<Longrightarrow> odd (length l) \<Longrightarrow> action (last l) = BUY"
  by (induction l rule: closed_pairs.induct) auto

lemma closed_pairs_append_pair:
  "even (length l) \<Longrightarrow> closed_pairs (l @ [b, s]) = closed_pairs l @ [(b, s)]"
  by (induction l rule: closed_pairs.induct) simp_all

lemma alternating_append_pair:
  "even (length l) \<Longrightarrow>
     alternating (l @ [b, s]) =
       (alternating l \<and> action b = BUY \<and> action s = SELL \<and> quantity s = quantity b)"
  by (induction l rule: closed_pairs.induct) auto

lemma realized_profit_append_pair:
  "even (length l) \<Longrightarrow>
     realized_profit (l @ [b, s]) = realized_profit l + (price s - price b) * quantity b"
  by (simp add: realized_profit_def closed_pairs_append_pair)

lemma backtest_body_acct:
  assumes "acct_inv v"
  shows "acct_inv (backtest_body self idx pr sig v)"
proof (cases "loc_position v")
  case None
  with assms show ?thesis
    by (simp add: acct_inv_def backtest_body_def Let_def
        alternating_append_even alternating_append_odd alternating_append_pair
        realized_profit_append_even realized_profit_append_odd realized_profit_append_pair)
next
  case (Some p)
  with assms show ?thesis
    by (simp add: acct_inv_def backtest_body_def Let_def
        alternating_append_even alternating_append_odd alternating_append_pair
        realized_profit_append_even realized_profit_append_odd realized_profit_append_pair)
qed

lemma backtest_body_stamped:
  assumes "\<forall>t\<in>set (loc_trades v). \<exists>i<length prices. timestamp t = real i \<and> price t = prices ! i"
    and "idx < length prices" and "pr = prices ! idx"
  shows "\<forall>t\<in>set (loc_trades (backtest_body self idx pr sig v)).
           \<exists>i<length prices. timestamp t = real i \<and> price t = prices ! i"
proof -
  have new: "\<forall>t\<in>set (emitted (loc_trades v) (loc_trades (backtest_body self idx pr sig v))).
               timestamp t = real idx \<and> price t = pr"
    by (simp add: backtest_body_def emitted_def Let_def split: option.splits)
  have "set (loc_trades (backtest_body self idx pr sig v))
          = set (loc_trades v) \<union>
            set (emitted (loc_trades v) (loc_trades (backtest_body self idx pr sig v)))"
    by (subst backtest_body_emitted) simp
  with assms new show ?thesis by blast
qed

lemma backtest_body_strategy:
  "backtest_body (self\<lparr>strategy := strat\<rparr>) idx pr sig v = backtest_body self idx pr sig v"
  by (cases "loc_position v") (simp_all add: backtest_body_def Let_def)

lemma feed_prefixes_total:
  "short_window strat \<noteq> 0 \<Longrightarrow> long_window strat \<noteq> 0 \<Longrightarrow>
     \<exists>sigs strat'. feed_prefixes strat prices idxs = Inr (sigs, strat')
        \<and> length sigs = length idxs"
proof (induction idxs arbitrary: strat)
  case Nil
  then show ?case by simp
next
  case (Cons i idxs)
  from generate_signal_nonzero [OF Cons.prems]
  obtain sig strat1 where g: "generate_signal strat (take (Suc i) prices) = Inr (sig, strat1)"
    by (metis surj_pair)
  from generate_signal_windows [OF g] Cons.prems
  have "short_window strat1 \<noteq> 0" and "long_window strat1 \<noteq> 0" by simp_all
  from Cons.IH [OF this] obtain sigs strat' where
    "feed_prefixes strat1 prices idxs = Inr (sigs, strat')" and "length sigs = length idxs"
    by blast
  with g show ?case by simp
qed

lemma backtest_loop_replay:
  "feed_prefixes (strategy self) prices (map fst ixs) = Inr (sigs, strat') \<Longrightarrow>
     backtest_loop prices ixs self v =
       (Inr (foldl (\<lambda>v ((idx, pr), sig). backtest_body self idx pr sig v) v (zip ixs sigs)),
        self\<lparr>strategy := strat'\<rparr>)"
proof (induction ixs arbitrary: self v sigs)
  case Nil
  then show ?case by simp
next
  case (Cons ip ixs)
  obtain idx pr where ip: "ip = (idx, pr)" by (cases ip)
  from Cons.prems ip obtain sig strat1 sigs' where
    g: "generate_signal (strategy self) (take (Suc idx) prices) = Inr (sig, strat1)"
    and f: "feed_prefixes strat1 prices (map fst ixs) = Inr (sigs', strat')"
    and s: "sigs = sig # sigs'"
    by (auto split: sum.splits prod.splits)
  let ?self1 = "self\<lparr>strategy := strat1\<rparr>"
  have "feed_prefixes (strategy ?self1) prices (map fst ixs) = Inr (sigs', strat')"
    using f by simp
  from Cons.IH [OF this]
  have "backtest_loop prices ixs ?self1 (backtest_body ?self1 idx pr sig v) =
       (Inr (foldl (\<lambda>v ((idx, pr), sig). backtest_body ?self1 idx pr sig v)
               (backtest_body ?self1 idx pr sig v) (zip ixs sigs')),
        ?self1\<lparr>strategy := strat'\<rparr>)" .
  then show ?case
    using g by (simp add: ip s backtest_body_strategy)
qed

lemma foldl_body_inv:
  assumes "acct_inv v"
  shows "acct_inv (foldl (\<lambda>v ((idx, pr), sig). backtest_body self idx pr sig v) v xs)"
  using assms
  by (induction xs arbitrary: v) (auto simp add: backtest_body_acct)

lemma foldl_body_stamped:
  assumes "\<forall>t\<in>set (loc_trades v). \<exists>i<length prices. timestamp t = real i \<and> price t = prices ! i"
    and "\<forall>((idx, pr), sig)\<in>set xs. idx < length prices \<and> pr = prices ! idx"
  shows "\<forall>t\<in>set (loc_trades (foldl (\<lambda>v ((idx, pr), sig). backtest_body self idx pr sig v) v xs)).
           \<exists>i<length prices. timestamp t = real i \<and> price t = prices ! i"
  using assms
proof (induction xs arbitrary: v)
  case Nil
  then show ?case by simp
next
  case (Cons x xs)
  obtain idx pr sig where x: "x = ((idx, pr), sig)" by (metis surj_pair)
  from Cons.prems(2) x have ok: "idx < length prices" "pr = prices ! idx" by simp_all
  from backtest_body_stamped [OF Cons.prems(1) ok]
  have "\<forall>t\<in>set (loc_trades (backtest_body self idx pr sig v)).
           \<exists>i<length prices. timestamp t = real i \<and> price t = prices ! i" .
  from Cons.IH [OF this] Cons.prems(2) show ?case by (simp add: x)
qed

lemma enumerate_stamps:
  "\<forall>((idx, pr), sig)\<in>set (zip (enumerate 0 prices) sigs). idx < length prices \<and> pr = prices ! idx"
proof -
  have "\<forall>(idx, pr)\<in>set (enumerate 0 prices). idx < length prices \<and> pr = prices ! idx"
    by (auto simp add: in_set_enumerate_eq)
  then show ?thesis by (auto dest: set_zip_leftD)
qed

lemma acct_inv_start: "acct_inv \<lparr>loc_position = None, loc_profit = 0, loc_trades = []\<rparr>"
  by (simp add: acct_inv_def realized_profit_def)

lemma realized_profit_open:
  assumes "odd (length l)"
  shows "realized_profit l = realized_profit (butlast l)"
proof -
  from assms have ne: "l \<noteq> []" by auto
  then have l: "l = butlast l @ [last l]" by simp
  from assms ne have "even (length (butlast l))" by simp
  from realized_profit_append_even [OF this, of "last l"] l show ?thesis by simp
qed

text \<open>
  \<^bold>\<open>C3.\<close> For a strategy whose windows are not 0, \<open>backtest\<close> returns on every series.
  Tick \<open>i\<close> gives the strategy the prefix of the series up to index \<open>i\<close>
  (\<open>feed_prefixes\<close> over the indices from 0), and the returned ledger and profit are
  those of the order logic run over these signals. The ledger alternates BUY and SELL,
  and the profit is the sum over its closed pairs of (exit price - entry price) *
  quantity; an unpaired last entry, the position still open at the end, adds nothing.
  \<open>trade_count\<close> is the length of the ledger, and every trade carries the index of its
  tick as timestamp and the price of the series at that index.
\<close>

theorem backtest_profit_accounting:
  assumes "short_window (strategy self) \<noteq> 0" and "long_window (strategy self) \<noteq> 0"
  shows "\<exists>sigs strat' r.
      feed_prefixes (strategy self) prices [0..<length prices] = Inr (sigs, strat')
      \<and> length sigs = length prices
      \<and> backtest self prices = (Inr r, self\<lparr>strategy := strat'\<rparr>)
      \<and> trades r = loc_trades (replay self prices sigs)
      \<and> profit r = loc_profit (replay self prices sigs)
      \<and> profit r = realized_profit (trades r)
      \<and> alternating (trades r)
      \<and> (odd (length (trades r)) \<longrightarrow>
            realized_profit (trades r) = realized_profit (butlast (trades r)))
      \<and> trade_count r = length (trades r)
      \<and> (\<forall>t\<in>set (trades r). \<exists>i<length prices. timestamp t = real i \<and> price t = prices ! i)"
proof -
  from feed_prefixes_total [OF assms, of prices "[0..<length prices]"]
  obtain sigs strat' where
    feed: "feed_prefixes (strategy self) prices [0..<length prices] = Inr (sigs, strat')"
    and len: "length sigs = length prices"
    by auto
  let ?v0 = "\<lparr>loc_position = None, loc_profit = 0, loc_trades = []\<rparr>"
  let ?w = "replay self prices sigs"
  let ?r = "\<lparr>profit = loc_profit ?w, trade_count = length (loc_trades ?w),
             trades = loc_trades ?w\<rparr>"
  have "feed_prefixes (strategy self) prices (map fst (enumerate 0 prices)) = Inr (sigs, strat')"
    using feed by (simp add: map_fst_enumerate)
  from backtest_loop_replay [where v = ?v0, OF this]
  have loop: "backtest_loop prices (enumerate 0 prices) self ?v0
                = (Inr ?w, self\<lparr>strategy := strat'\<rparr>)"
    by (simp add: replay_def)
  have run: "backtest self prices = (Inr ?r, self\<lparr>strategy := strat'\<rparr>)"
    by (simp add: backtest_def loop)
  have acct: "acct_inv ?w"
    unfolding replay_def by (rule foldl_body_inv [OF acct_inv_start])
  have stamps: "\<forall>t\<in>set (loc_trades ?w).
                  \<exists>i<length prices. timestamp t = real i \<and> price t = prices ! i"
    unfolding replay_def
    by (rule foldl_body_stamped [OF _ enumerate_stamps]) simp
  from acct have p: "loc_profit ?w = realized_profit (loc_trades ?w)"
    and a: "alternating (loc_trades ?w)"
    by (simp_all add: acct_inv_def)
  have "feed_prefixes (strategy self) prices [0..<length prices] = Inr (sigs, strat')
      \<and> length sigs = length prices
      \<and> backtest self prices = (Inr ?r, self\<lparr>strategy := strat'\<rparr>)
      \<and> trades ?r = loc_trades (replay self prices sigs)
      \<and> profit ?r = loc_profit (replay self prices sigs)
      \<and> profit ?r = realized_profit (trades ?r)
      \<and> alternating (trades ?r)
      \<and> (odd (length (trades ?r)) \<longrightarrow>
            realized_profit (trades ?r) = realized_profit (butlast (trades ?r)))
      \<and> trade_count ?r = length (trades ?r)
      \<and> (\<forall>t\<in>set (trades ?r). \<exists>i<length prices. timestamp t = real i \<and> price t = prices ! i)"
    using feed len run p a stamps realized_profit_open by simp
  then show ?thesis by blast
qed

text \<open>One BUY at 100 with quantity 1, then one SELL at 110: the profit is 10.\<close>

theorem backtest_profit_accounting_witness:
  "short_window (strategy example_bot) \<noteq> 0
   \<and> long_window (strategy example_bot) \<noteq> 0
   \<and> fst (backtest example_bot [200, 50, 100, 110])
       = Inr \<lparr>profit = 10, trade_count = 2, trades =
            [\<lparr>timestamp = 2, action = BUY, price = 100, quantity = 1\<rparr>,
             \<lparr>timestamp = 3, action = SELL, price = 110, quantity = 1\<rparr>]\<rparr>
   \<and> realized_profit
        [\<lparr>timestamp = 2, action = BUY, price = 100, quantity = 1\<rparr>,
         \<lparr>timestamp = 3, action = SELL, price = 110, quantity = 1\<rparr>] = 10"
proof -
  have sw: "short_window (strategy example_bot) \<noteq> 0"
    and lw: "long_window (strategy example_bot) \<noteq> 0"
    by (simp_all add: example_defs)
  let ?R = "\<lparr>profit = 10, trade_count = 2, trades =
            [\<lparr>timestamp = 2, action = BUY, price = 100, quantity = 1\<rparr>,
             \<lparr>timestamp = 3, action = SELL, price = 110, quantity = 1\<rparr>]\<rparr>"
  have run: "fst (backtest example_bot [200, 50, 100, 110]) = Inr ?R"
    by (simp add: run_defs example_defs)
  from backtest_profit_accounting [OF sw lw, of "[200, 50, 100, 110]"]
  obtain r where "fst (backtest example_bot [200, 50, 100, 110]) = Inr r"
    and "profit r = realized_profit (trades r)"
    by auto
  with run have "profit ?R = realized_profit (trades ?R)" by simp
  then have "realized_profit (trades ?R) = 10" by simp
  with sw lw run show ?thesis by simp
qed

end
